theory Spec2Isabelle
  imports Complex_Main "HOL-Library.AList"
begin

section \<open>JSON values and the JavaScript operations the extension applies to them\<close>

text \<open>
  The settings files are read with \<^verbatim>\<open>JSON.parse\<close>, so every value the program compares is
  one of the six JSON kinds. Objects are association lists in enumeration order; all
  reads go through \<open>map_of\<close>, so a list denotes the object that maps each key to its
  first binding. Any string can be a key, the names of the members of
  \<^verbatim>\<open>Object.prototype\<close> included. Numbers are only ever tested for (in)equality; they are
  the finite ones, modelled as reals. Strings are sequences of code units. A settings
  document is a JSON object.
\<close>

datatype json =
    JNull
  | JBool bool
  | JNum real
  | JStr string
  | JArr "json list"
  | JObj "(string \<times> json) list"

type_synonym document = "(string \<times> json) list"

text \<open>A file is addressed by its directory and its name (\<^verbatim>\<open>path.join(dir, name)\<close>).\<close>

type_synonym path = "string \<times> string"

text \<open>
  \<open>TypeError\<close> is the runtime's exception for a property read on \<^verbatim>\<open>null\<close> or
  \<^verbatim>\<open>undefined\<close>, for a call of something that is not a function, and for \<^verbatim>\<open>path.join\<close>
  on a non-string. \<open>JSONError message filename\<close> is the exception the extension defines
  itself. \<open>ENOENT file\<close> is the error of \<^verbatim>\<open>fs.writeFileSync\<close> when the directory of the
  file does not exist.
\<close>

datatype error = TypeError | JSONError string path | ENOENT path

subsection \<open>Array and string indices as property names\<close>

definition digit_char :: "nat \<Rightarrow> char" where
  "digit_char d = char_of (48 + d)"

function show_nat :: "nat \<Rightarrow> string" where
  "show_nat n =
     (if n < 10 then [digit_char n]
      else show_nat (n div 10) @ [digit_char (n mod 10)])"
  by pat_completeness auto
termination
  by (relation "measure id") auto

declare show_nat.simps [simp del]

definition index_keys :: "nat \<Rightarrow> string list" where
  "index_keys n = map show_nat [0..<n]"

definition find_index_key :: "string \<Rightarrow> nat \<Rightarrow> nat option" where
  "find_index_key p n = find (\<lambda>i. show_nat i = p) [0..<n]"

subsection \<open>\<^verbatim>\<open>for (let prop in v)\<close>, own properties and \<^verbatim>\<open>typeof\<close>\<close>

text \<open>
  \<open>for_in v\<close> lists the property names a \<^verbatim>\<open>for ... in\<close> loop over \<open>v\<close> visits: none for
  \<^verbatim>\<open>null\<close>, a boolean or a number, the indices for a string or an array, the keys for an
  object. (No prototype of a parsed value has an enumerable property.)
\<close>

fun for_in :: "json \<Rightarrow> string list" where
  "for_in JNull = []"
| "for_in (JBool b) = []"
| "for_in (JNum x) = []"
| "for_in (JStr s) = index_keys (length s)"
| "for_in (JArr xs) = index_keys (length xs)"
| "for_in (JObj kvs) = map fst kvs"

text \<open>
  \<open>js_get v p\<close> is the own property \<open>p\<close> of \<open>v\<close>: a \<open>TypeError\<close> on \<^verbatim>\<open>null\<close>, \<open>None\<close> when
  \<open>v\<close> has no such own property. Strings and arrays own their indices and \<^verbatim>\<open>length\<close>. This
  is \<^verbatim>\<open>v[p]\<close> wherever \<open>p\<close> is known to be an own property of \<open>v\<close>.
\<close>

fun js_get :: "json \<Rightarrow> string \<Rightarrow> error + json option" where
  "js_get JNull p = Inl TypeError"
| "js_get (JBool b) p = Inr None"
| "js_get (JNum x) p = Inr None"
| "js_get (JStr s) p =
     Inr (if p = ''length'' then Some (JNum (real (length s)))
          else (case find_index_key p (length s) of
                  None \<Rightarrow> None
                | Some i \<Rightarrow> Some (JStr [s ! i])))"
| "js_get (JArr xs) p =
     Inr (if p = ''length'' then Some (JNum (real (length xs)))
          else (case find_index_key p (length xs) of
                  None \<Rightarrow> None
                | Some i \<Rightarrow> Some (xs ! i)))"
| "js_get (JObj kvs) p = Inr (map_of kvs p)"

text \<open>\<^verbatim>\<open>typeof v === 'object'\<close> holds of \<^verbatim>\<open>null\<close>, of arrays and of objects.\<close>

fun typeof_object :: "json \<Rightarrow> bool" where
  "typeof_object JNull = True"
| "typeof_object (JArr xs) = True"
| "typeof_object (JObj kvs) = True"
| "typeof_object v = False"

subsection \<open>Inherited members and \<^verbatim>\<open>hasOwnProperty\<close>\<close>

text \<open>
  The names of the members of the runtime's \<^verbatim>\<open>Object.prototype\<close>. A read \<^verbatim>\<open>v[p]\<close> of an
  object \<open>v\<close> that has no own property \<open>p\<close> finds the inherited member when \<open>p\<close> is one of
  these names, and is \<^verbatim>\<open>undefined\<close> otherwise.
\<close>

definition object_prototype_names :: "string list" where
  "object_prototype_names =
     [''constructor'', ''__defineGetter__'', ''__defineSetter__'', ''hasOwnProperty'',
      ''__lookupGetter__'', ''__lookupSetter__'', ''isPrototypeOf'',
      ''propertyIsEnumerable'', ''toString'', ''valueOf'', ''__proto__'',
      ''toLocaleString'']"

text \<open>
  The source calls \<^verbatim>\<open>v.hasOwnProperty(p)\<close> on the value itself. For an object with an own
  key \<^verbatim>\<open>hasOwnProperty\<close> that is a call of a JSON value, which raises a \<open>TypeError\<close>.
\<close>

fun shadowed :: "json \<Rightarrow> bool" where
  "shadowed (JObj kvs) = (map_of kvs ''hasOwnProperty'' \<noteq> None)"
| "shadowed v = False"

text \<open>
  \<open>missing v p\<close> is the test
  \<^verbatim>\<open>typeof(v[p]) === 'undefined' || !v.hasOwnProperty(p)\<close>.
  The read raises on \<^verbatim>\<open>null\<close>. When \<open>v[p]\<close> is an own property or an inherited member,
  \<^verbatim>\<open>typeof\<close> is not \<^verbatim>\<open>'undefined'\<close> and the call is made: it raises when \<^verbatim>\<open>hasOwnProperty\<close> is
  shadowed, and otherwise tells whether \<open>p\<close> is an own property. Only an object can shadow
  \<^verbatim>\<open>hasOwnProperty\<close>; for the other kinds of value the test is true exactly of the names
  that are not own properties, whatever their prototypes hold.
\<close>

fun missing :: "json \<Rightarrow> string \<Rightarrow> error + bool" where
  "missing v p =
     (case js_get v p of
        Inl e \<Rightarrow> Inl e
      | Inr (Some x) \<Rightarrow> if shadowed v then Inl TypeError else Inr False
      | Inr None \<Rightarrow>
          if shadowed v \<and> p \<in> set object_prototype_names then Inl TypeError
          else Inr True)"

text \<open>
  \<open>has_key v\<close> is the loop
  \<^verbatim>\<open>for (let key in v) { if (v.hasOwnProperty(key)) { ... } }\<close>
  that the source runs on a result of \<^verbatim>\<open>compareUpdate\<close>: whether the body is entered.
\<close>

fun has_key :: "json \<Rightarrow> error + bool" where
  "has_key v =
     (if for_in v = [] then Inr False
      else if shadowed v then Inl TypeError
      else Inr True)"

text \<open>
  \<^verbatim>\<open>Object.assign(target, source)\<close>: every enumerable own property of the source is
  written to the target, replacing the value of a key the target has and appending a
  key it lacks. A write to \<^verbatim>\<open>__proto__\<close> on a target without that own key goes to the setter
  of \<^verbatim>\<open>Object.prototype\<close> and adds no key.
\<close>

definition set_property :: "string \<Rightarrow> json \<Rightarrow> document \<Rightarrow> document" where
  "set_property k v target =
     (if k = ''__proto__'' \<and> map_of target k = None then target
      else AList.update k v target)"

definition object_assign :: "document \<Rightarrow> json \<Rightarrow> document" where
  "object_assign target source =
     fold (\<lambda>k t. case js_get source k of
                    Inr (Some v) \<Rightarrow> set_property k v t
                  | _ \<Rightarrow> t)
          (for_in source) target"

definition startsWith :: "string \<Rightarrow> string \<Rightarrow> bool" where
  "startsWith s p = (take (length p) s = p)"

section \<open>The settings diff: \<^verbatim>\<open>compareUpdate\<close>\<close>

text \<open>
  The first two loops of \<^verbatim>\<open>compareUpdate\<close> have the same body: for each name, test the
  other side with \<open>missing\<close> and return \<^verbatim>\<open>compare\<close> when the test holds. \<open>missing_in obj ps\<close>
  runs such a loop: \<open>Inr True\<close> when it returns, \<open>Inr False\<close> when it runs to its end,
  \<open>Inl\<close> when the test raises.
\<close>

fun missing_in :: "json \<Rightarrow> string list \<Rightarrow> error + bool" where
  "missing_in obj [] = Inr False"
| "missing_in obj (p # ps) =
     (case missing obj p of
        Inl e \<Rightarrow> Inl e
      | Inr True \<Rightarrow> Inr True
      | Inr False \<Rightarrow> missing_in obj ps)"

lemma size_map_of:
  "map_of kvs p = Some v \<Longrightarrow> size v < Suc (size_list (size_prod (\<lambda>x. 0) size) kvs)"
  by (induction kvs) (auto split: if_splits)

lemma find_index_key_less: "find_index_key p n = Some i \<Longrightarrow> i < n"
  by (auto simp: find_index_key_def find_Some_iff)

lemma size_nth: "i < length xs \<Longrightarrow> size (xs ! i) < Suc (size_list size xs)"
proof (induction xs arbitrary: i)
  case Nil
  then show ?case by simp
next
  case (Cons x xs)
  show ?case
  proof (cases i)
    case 0
    then show ?thesis by simp
  next
    case (Suc j)
    with Cons.prems have "j < length xs" by simp
    from Cons.IH [OF this] Suc show ?thesis by simp
  qed
qed

lemma size_js_get:
  "js_get c p = Inr (Some v) \<Longrightarrow> typeof_object v \<Longrightarrow> size v < size c"
  by (cases c)
     (auto simp: size_map_of size_nth find_index_key_less
           split: if_splits option.splits)

text \<open>
  \<open>compareUpdate base compare\<close> returns \<open>Inr compare\<close> where the source returns
  \<^verbatim>\<open>compare\<close>, \<open>Inr (JObj [])\<close> where it returns \<^verbatim>\<open>{}\<close>, and \<open>Inl TypeError\<close> where it
  raises. \<open>compare_each\<close> is the third loop. There every \<open>prop\<close> is an own property of
  \<open>compare\<close> (the loop enumerates them) and of \<open>base\<close> (the first loop has checked it), so
  both reads are reads of own properties; the branches for an undefined value cannot be
  reached, and are written as the source would run them: with \<^verbatim>\<open>compare[prop]\<close> undefined
  the \<^verbatim>\<open>else\<close> branch compares with \<^verbatim>\<open>!==\<close>, and with \<^verbatim>\<open>base[prop]\<close> undefined the recursive
  call reads a property of \<^verbatim>\<open>undefined\<close> as soon as \<^verbatim>\<open>compare[prop]\<close> has a key, and returns
  \<^verbatim>\<open>{}\<close> otherwise.
\<close>

function compareUpdate :: "json \<Rightarrow> json \<Rightarrow> error + json"
  and compare_each :: "json \<Rightarrow> json \<Rightarrow> string list \<Rightarrow> error + json" where
  "compareUpdate base compare =
     (case missing_in base (for_in compare) of
        Inl e \<Rightarrow> Inl e
      | Inr True \<Rightarrow> Inr compare
      | Inr False \<Rightarrow>
          (case missing_in compare (for_in base) of
             Inl e \<Rightarrow> Inl e
           | Inr True \<Rightarrow> Inr compare
           | Inr False \<Rightarrow> compare_each base compare (for_in compare)))"
| "compare_each base compare [] = Inr (JObj [])"
| "compare_each base compare (p # ps) =
     (case js_get compare p of
        Inl e \<Rightarrow> Inl e
      | Inr None \<Rightarrow>
          (case js_get base p of
             Inl e \<Rightarrow> Inl e
           | Inr bv \<Rightarrow>
               if bv \<noteq> None then Inr compare
               else compare_each base compare ps)
      | Inr (Some c) \<Rightarrow>
          if typeof_object c then
            (case js_get base p of
               Inl e \<Rightarrow> Inl e
             | Inr None \<Rightarrow>
                 if for_in c \<noteq> [] then Inl TypeError
                 else compare_each base compare ps
             | Inr (Some b) \<Rightarrow>
                 (case compareUpdate b c of
                    Inl e \<Rightarrow> Inl e
                  | Inr diff \<Rightarrow>
                      (case has_key diff of
                         Inl e \<Rightarrow> Inl e
                       | Inr True \<Rightarrow> Inr compare
                       | Inr False \<Rightarrow> compare_each base compare ps)))
          else
            (case js_get base p of
               Inl e \<Rightarrow> Inl e
             | Inr bv \<Rightarrow>
                 if bv \<noteq> Some c then Inr compare
                 else compare_each base compare ps))"
  by pat_completeness auto
termination
  by (relation "measures [\<lambda>x. case x of Inl (b, c) \<Rightarrow> 2 * size c + 1
                                        | Inr (b, c, ps) \<Rightarrow> 2 * size c,
                           \<lambda>x. case x of Inl (b, c) \<Rightarrow> 0
                                        | Inr (b, c, ps) \<Rightarrow> length ps]")
     (auto dest: size_js_get)

declare compareUpdate.simps [simp del]

section \<open>The loop of \<^verbatim>\<open>compareRemoteSettings\<close>\<close>

text \<open>
  For each key of the remote document the source builds two fresh objects,
  \<^verbatim>\<open>base[prop] = localSettings[prop]\<close> and \<^verbatim>\<open>compare[prop] = remoteSettings[prop]\<close>, compares
  them, and assigns the result to \<^verbatim>\<open>newSettings\<close> when it has an own key. \<open>remote_step\<close> is
  one round: the object to assign, if any. \<^verbatim>\<open>remoteSettings[prop]\<close> is an own property, since
  \<open>prop\<close> ranges over the keys of the remote document. \<^verbatim>\<open>localSettings[prop]\<close> is the own
  property of the local document when there is one, the inherited member when \<open>prop\<close> is a
  name of \<^verbatim>\<open>Object.prototype\<close>, and \<^verbatim>\<open>undefined\<close> otherwise. The messages written to the
  output channel and the console are left out.

  An own property holding \<^verbatim>\<open>undefined\<close> is written as the object without the key:
  \<^verbatim>\<open>compare\<close> has the key, so the first loop of \<^verbatim>\<open>compareUpdate\<close> returns at
  \<^verbatim>\<open>typeof(base[prop]) === 'undefined'\<close> before anything else looks at \<open>base\<close>.
\<close>

text \<open>
  When \<^verbatim>\<open>localSettings[prop]\<close> is a built-in function \<open>F\<close> inherited from
  \<^verbatim>\<open>Object.prototype\<close>, the comparison reads properties of \<open>F\<close>. \<open>function_names prop\<close> are
  the names that can be own properties of \<open>F\<close>: \<^verbatim>\<open>length\<close> and \<^verbatim>\<open>name\<close> for every function, and
  for the constructor \<^verbatim>\<open>Object\<close> its \<^verbatim>\<open>prototype\<close> and its static methods too. Which of these
  a given version of the runtime has, and with what values, is not part of the repository:
  \<open>builtin_compare prop rv\<close>, the result of \<^verbatim>\<open>compareUpdate(F, rv)\<close> for a remote value
  \<open>rv\<close> all of whose keys are among these names, is left unspecified.
\<close>

definition function_names :: "string \<Rightarrow> string list" where
  "function_names prop =
     (if prop = ''constructor''
      then [''length'', ''name'', ''prototype'', ''assign'', ''create'', ''defineProperties'',
            ''defineProperty'', ''entries'', ''freeze'', ''fromEntries'',
            ''getOwnPropertyDescriptor'', ''getOwnPropertyDescriptors'',
            ''getOwnPropertyNames'', ''getOwnPropertySymbols'', ''getPrototypeOf'',
            ''groupBy'', ''hasOwn'', ''is'', ''isExtensible'', ''isFrozen'', ''isSealed'',
            ''keys'', ''preventExtensions'', ''seal'', ''setPrototypeOf'', ''values'']
      else [''length'', ''name''])"

definition builtin_compare :: "string \<Rightarrow> json \<Rightarrow> error + json" where
  "builtin_compare = undefined"

text \<open>
  \<open>inherited_member prop rv\<close> is \<^verbatim>\<open>compareUpdate(base, compare)\<close> for
  \<^verbatim>\<open>base = {prop: F}\<close> and \<^verbatim>\<open>compare = {prop: rv}\<close>. With \<open>prop\<close> the name \<^verbatim>\<open>hasOwnProperty\<close>,
  the first loop calls the function \<open>F\<close> stored in \<open>base\<close>, and the second loop calls the
  JSON value stored in \<open>compare\<close>, which raises. Otherwise both objects own \<open>prop\<close>, and the
  third loop either compares \<open>F\<close> with a boolean, number or string by \<^verbatim>\<open>!==\<close>, or calls
  \<^verbatim>\<open>compareUpdate(F, rv)\<close>. That call returns \<^verbatim>\<open>{}\<close> at once when \<open>rv\<close> has no key to enumerate
  (no property of a function is enumerable). When \<open>rv\<close> has a key that \<open>F\<close> does not own, its
  first loop returns \<open>rv\<close> (at the keys before that one, which \<open>F\<close> owns, the test is false
  and nothing raises), and the loop over the keys of that result calls
  \<^verbatim>\<open>rv.hasOwnProperty\<close>.
\<close>

definition inherited_member :: "string \<Rightarrow> json \<Rightarrow> error + json" where
  "inherited_member prop rv =
     (if prop = ''hasOwnProperty'' then Inl TypeError
      else if \<not> typeof_object rv then Inr (JObj [(prop, rv)])
      else if for_in rv = [] then Inr (JObj [])
      else if list_ex (\<lambda>p. p \<notin> set (function_names prop)) (for_in rv)
      then (if shadowed rv then Inl TypeError else Inr (JObj [(prop, rv)]))
      else
        (case builtin_compare prop rv of
           Inl e \<Rightarrow> Inl e
         | Inr d \<Rightarrow>
             (case has_key d of
                Inl e \<Rightarrow> Inl e
              | Inr True \<Rightarrow> Inr (JObj [(prop, rv)])
              | Inr False \<Rightarrow> Inr (JObj []))))"

text \<open>
  The round for the key \<^verbatim>\<open>__proto__\<close>. The two assignments go to the setter of
  \<^verbatim>\<open>Object.prototype\<close>: neither object gets an own key, and an object, array or \<^verbatim>\<open>null\<close>
  assigned becomes the prototype. So \<^verbatim>\<open>compare\<close> enumerates the keys of the remote value
  \<open>rv\<close> by inheritance, and \<^verbatim>\<open>base\<close> reads through the local value \<open>lv\<close>. With no key
  to enumerate in \<open>rv\<close>, nothing raises, and the result has no own key. Otherwise the first
  loop of \<^verbatim>\<open>compareUpdate\<close> ends at the first key \<open>p\<close> of \<open>rv\<close>: \<^verbatim>\<open>base[p]\<close> is undefined, or
  \<^verbatim>\<open>base.hasOwnProperty(p)\<close> is false of the fresh object, or that call raises because \<open>lv\<close>
  shadows \<^verbatim>\<open>hasOwnProperty\<close>, which is when \<open>missing lv p\<close> raises for an \<open>lv\<close> other than
  \<^verbatim>\<open>null\<close>. The result is then \<^verbatim>\<open>compare\<close>, and the caller's loop over its keys calls
  \<^verbatim>\<open>compare.hasOwnProperty\<close>, which raises when \<open>rv\<close> shadows it and is false otherwise.
\<close>

definition proto_round :: "json option \<Rightarrow> json \<Rightarrow> error + json option" where
  "proto_round lv rv =
     (case (if typeof_object rv then for_in rv else []) of
        [] \<Rightarrow> Inr None
      | p # ps \<Rightarrow>
          if (case lv of
                None \<Rightarrow> False
              | Some l \<Rightarrow> l \<noteq> JNull \<and> missing l p = Inl TypeError)
          then Inl TypeError
          else if shadowed rv then Inl TypeError
          else Inr None)"

definition remote_step :: "document \<Rightarrow> string \<Rightarrow> json \<Rightarrow> error + json option" where
  "remote_step localSettings prop rv =
     (if prop = ''__proto__'' then proto_round (map_of localSettings prop) rv
      else
        (case (case map_of localSettings prop of
                 Some lv \<Rightarrow> compareUpdate (JObj [(prop, lv)]) (JObj [(prop, rv)])
               | None \<Rightarrow>
                   if prop \<in> set object_prototype_names then inherited_member prop rv
                   else compareUpdate (JObj []) (JObj [(prop, rv)])) of
           Inl e \<Rightarrow> Inl e
         | Inr res \<Rightarrow>
             (case has_key res of
                Inl e \<Rightarrow> Inl e
              | Inr True \<Rightarrow> Inr (Some res)
              | Inr False \<Rightarrow> Inr None)))"

text \<open>The branch for a \<open>prop\<close> that is not a key of the remote document is not reached.\<close>

fun remote_loop ::
  "document \<Rightarrow> document \<Rightarrow> string list \<Rightarrow> bool \<times> document \<Rightarrow> error + bool \<times> document" where
  "remote_loop localSettings remoteSettings [] acc = Inr acc"
| "remote_loop localSettings remoteSettings (prop # props) (updated, newSettings) =
     (case map_of remoteSettings prop of
        None \<Rightarrow> remote_loop localSettings remoteSettings props (updated, newSettings)
      | Some rv \<Rightarrow>
          (case remote_step localSettings prop rv of
             Inl e \<Rightarrow> Inl e
           | Inr (Some res) \<Rightarrow>
               remote_loop localSettings remoteSettings props
                 (True, object_assign newSettings res)
           | Inr None \<Rightarrow>
               remote_loop localSettings remoteSettings props (updated, newSettings)))"

text \<open>
  \<open>diff base compare\<close> is what the loop leaves in \<^verbatim>\<open>newSettings\<close> with \<open>base\<close> the local
  and \<open>compare\<close> the remote document.
\<close>

definition diff :: "document \<Rightarrow> document \<Rightarrow> error + document" where
  "diff base compare =
     (case remote_loop base compare (map fst compare) (False, []) of
        Inl e \<Rightarrow> Inl e
      | Inr (updated, newSettings) \<Rightarrow> Inr newSettings)"

section \<open>The loop of \<^verbatim>\<open>compareDefaultSettings\<close>\<close>

text \<open>
  \<^verbatim>\<open>localSettings.hasOwnProperty(prop)\<close> raises when the local document has an own key
  \<^verbatim>\<open>hasOwnProperty\<close>. \<^verbatim>\<open>newSettings[prop] = defaultSettings[prop]\<close> adds no key for \<^verbatim>\<open>__proto__\<close>
  (\<open>set_property\<close>); \<^verbatim>\<open>updated\<close> is set all the same. The branch for
  \<^verbatim>\<open>defaultSettings[prop]\<close> undefined is not reached.
\<close>

fun default_loop ::
  "document \<Rightarrow> document \<Rightarrow> string list \<Rightarrow> bool \<times> document \<Rightarrow> error + bool \<times> document" where
  "default_loop defaultSettings localSettings [] acc = Inr acc"
| "default_loop defaultSettings localSettings (prop # props) (updated, newSettings) =
     (if shadowed (JObj localSettings) then Inl TypeError
      else if map_of localSettings prop = None
      then default_loop defaultSettings localSettings props
             (True, case map_of defaultSettings prop of
                      None \<Rightarrow> newSettings
                    | Some v \<Rightarrow> set_property prop v newSettings)
      else default_loop defaultSettings localSettings props (updated, newSettings))"

definition mergeDefaults :: "document \<Rightarrow> document \<Rightarrow> error + document" where
  "mergeDefaults defaults localSettings =
     (case default_loop defaults localSettings (map fst defaults) (False, []) of
        Inl e \<Rightarrow> Inl e
      | Inr (updated, newSettings) \<Rightarrow> Inr newSettings)"

section \<open>The extension's state and the settings files\<close>

text \<open>
  A file holds either a document (what \<^verbatim>\<open>JSON.parse\<close> of the comment-stripped text yields,
  and what \<^verbatim>\<open>JSON.stringify\<close> writes) or text that \<^verbatim>\<open>JSON.parse\<close> rejects with a message.
\<close>

datatype file_content = Doc document | Garbage string

text \<open>
  The fields of \<^verbatim>\<open>FetchEnvironment\<close> that the modelled methods use, and the file system:
  the settings files by path, and the set of directories that exist. A configured path is
  \<open>None\<close> when the configuration holds \<^verbatim>\<open>undefined\<close> or \<^verbatim>\<open>null\<close>. The file system changes
  only by the extension's own writes.
\<close>

record state =
  remoteExtensionPath :: "string option"
  remoteSettingsPath :: "string option"
  remoteDefaultSettingsFilename :: "string option"
  localSettingsPath :: string
  files :: "path \<Rightarrow> file_content option"
  dirs :: "string set"

text \<open>\<^verbatim>\<open>!x\<close> for a configured string: true of \<^verbatim>\<open>undefined\<close>, \<^verbatim>\<open>null\<close> and the empty string.\<close>

fun falsy :: "string option \<Rightarrow> bool" where
  "falsy None = True"
| "falsy (Some x) = (x = [])"

text \<open>\<^verbatim>\<open>path.join(dir, name)\<close> raises a \<open>TypeError\<close> when \<open>dir\<close> is not a string.\<close>

fun path_join :: "string option \<Rightarrow> string \<Rightarrow> error + path" where
  "path_join None name = Inl TypeError"
| "path_join (Some dir) name = Inr (dir, name)"

text \<open>
  The filter loop of \<^verbatim>\<open>readSettingsFile\<close>: each visited own property whose name starts
  with \<^verbatim>\<open>fetchUserEnv\<close> is deleted. The test calls \<^verbatim>\<open>settingsFile.hasOwnProperty(prop)\<close> first,
  which raises when the document has an own key \<^verbatim>\<open>hasOwnProperty\<close>.
\<close>

fun filter_loop :: "string list \<Rightarrow> document \<Rightarrow> error + document" where
  "filter_loop [] settingsFile = Inr settingsFile"
| "filter_loop (prop # props) settingsFile =
     (if shadowed (JObj settingsFile) then Inl TypeError
      else filter_loop props
             (if map_of settingsFile prop \<noteq> None \<and> startsWith prop ''fetchUserEnv''
              then AList.delete prop settingsFile
              else settingsFile))"

text \<open>
  A missing file makes \<^verbatim>\<open>fs.readFileSync\<close> raise inside the \<^verbatim>\<open>try\<close>, so it is reported as a
  \<open>JSONError\<close> like a parse failure. The filter loop runs after the \<^verbatim>\<open>try\<close>.
\<close>

definition readSettingsFile :: "state \<Rightarrow> path \<Rightarrow> bool \<Rightarrow> error + document" where
  "readSettingsFile s filePath filter_flag =
     (case files s filePath of
        None \<Rightarrow> Inl (JSONError ''ENOENT'' filePath)
      | Some (Garbage message) \<Rightarrow> Inl (JSONError message filePath)
      | Some (Doc settingsFile) \<Rightarrow>
          if filter_flag then filter_loop (map fst settingsFile) settingsFile
          else Inr settingsFile)"

definition localSettingsFile :: "state \<Rightarrow> path" where
  "localSettingsFile s = (localSettingsPath s, ''settings.json'')"

text \<open>
  \<^verbatim>\<open>updateSettings\<close> reads the local settings without the filter, assigns the new settings
  and writes the result. \<^verbatim>\<open>fs.writeFileSync\<close> creates the file when it is missing, and
  raises when its directory is missing too. The document written is the one a later read
  parses, the numbers of the model being finite.
\<close>

definition updateSettings :: "state \<Rightarrow> document \<Rightarrow> error + state" where
  "updateSettings s newSettings =
     (case (if files s (localSettingsFile s) \<noteq> None
            then readSettingsFile s (localSettingsFile s) False
            else Inr []) of
        Inl e \<Rightarrow> Inl e
      | Inr localSettings \<Rightarrow>
          if files s (localSettingsFile s) = None \<and> localSettingsPath s \<notin> dirs s
          then Inl (ENOENT (localSettingsFile s))
          else Inr (s\<lparr>files := (files s)(localSettingsFile s \<mapsto>
                       Doc (object_assign localSettings (JObj newSettings)))\<rparr>))"

definition compareDefaultSettings :: "state \<Rightarrow> error + bool \<times> state" where
  "compareDefaultSettings s =
     (case remoteDefaultSettingsFilename s of
        None \<Rightarrow> Inr (False, s)
      | Some filename \<Rightarrow>
          if filename = [] then Inr (False, s)
          else
            (case path_join (remoteSettingsPath s) filename of
               Inl e \<Rightarrow> Inl e
             | Inr defaultsFile \<Rightarrow>
                 (case readSettingsFile s defaultsFile True of
                    Inl e \<Rightarrow> Inl e
                  | Inr defaultSettings \<Rightarrow>
                      (case readSettingsFile s (localSettingsFile s) True of
                         Inl e \<Rightarrow> Inl e
                       | Inr localSettings \<Rightarrow>
                           (case default_loop defaultSettings localSettings
                                   (map fst defaultSettings) (False, []) of
                              Inl e \<Rightarrow> Inl e
                            | Inr (updated, newSettings) \<Rightarrow>
                                if updated then
                                  (case updateSettings s newSettings of
                                     Inl e \<Rightarrow> Inl e
                                   | Inr s' \<Rightarrow> Inr (True, s'))
                                else Inr (False, s))))))"



section \<open>\<^verbatim>\<open>installNewExtensions\<close>\<close>

text \<open>
  A directory under the remote extension path, with what its \<^verbatim>\<open>package.json\<close> is: absent,
  rejected by \<^verbatim>\<open>JSON.parse\<close>, or parsed to a value.
\<close>

datatype package_json =
    NoPackageFile
  | BadPackageFile string
  | PackageFile json

type_synonym folder = "string \<times> package_json"

text \<open>A copy that \<^verbatim>\<open>fse.copy\<close> is asked to make: the source folder and the destination name.\<close>

type_synonym copy = "string \<times> string"

text \<open>
  The conversion to a string that \<^verbatim>\<open>+\<close> applies to an operand. What it makes of a number,
  an array or an object is the runtime's business (it throws for an object whose own
  \<^verbatim>\<open>toString\<close> and \<^verbatim>\<open>valueOf\<close> are not functions), and is the parameter \<open>render\<close>.
\<close>

fun to_string :: "(json \<Rightarrow> error + string) \<Rightarrow> json option \<Rightarrow> error + string" where
  "to_string render None = Inr ''undefined''"
| "to_string render (Some (JStr s)) = Inr s"
| "to_string render (Some JNull) = Inr ''null''"
| "to_string render (Some (JBool b)) = Inr (if b then ''true'' else ''false'')"
| "to_string render (Some v) = render v"

text \<open>
  \<open>examine\<close> is the body of the loop for one folder: \<open>Inl\<close> when it throws, \<open>Inr None\<close> when
  it reaches a \<^verbatim>\<open>continue\<close>, \<open>Inr (Some c)\<close> when it requests the copy \<open>c\<close>. \<open>compareVer\<close> is
  the \<^verbatim>\<open>semver-compare\<close> package, which is not part of the repository; it is a parameter,
  applied to the two values as they are (it throws when one of them is not a string).
  \<open>installed\<close> is \<^verbatim>\<open>_localExtVersions\<close>, read at a name that contains a dot, so never at an
  inherited member. The three fields are own properties of the parsed value or
  \<^verbatim>\<open>undefined\<close>; reading them raises when the file holds \<^verbatim>\<open>null\<close>. The version is converted
  to a string for the log message, before the copy is requested.
\<close>

fun examine ::
  "(json \<Rightarrow> json option \<Rightarrow> error + int) \<Rightarrow> (json \<Rightarrow> error + string)
     \<Rightarrow> (string \<Rightarrow> json option) \<Rightarrow> folder \<Rightarrow> error + copy option" where
  "examine compareVer render installed (dir, NoPackageFile) = Inr None"
| "examine compareVer render installed (dir, BadPackageFile message) =
     Inl (JSONError message (dir, ''package.json''))"
| "examine compareVer render installed (dir, PackageFile json_file) =
     (case js_get json_file ''publisher'' of
        Inl e \<Rightarrow> Inl e
      | Inr publisher \<Rightarrow>
     (case to_string render publisher of
        Inl e \<Rightarrow> Inl e
      | Inr publisher_text \<Rightarrow>
     (case js_get json_file ''name'' of
        Inl e \<Rightarrow> Inl e
      | Inr name \<Rightarrow>
     (case to_string render name of
        Inl e \<Rightarrow> Inl e
      | Inr name_text \<Rightarrow>
     (case js_get json_file ''version'' of
        Inl e \<Rightarrow> Inl e
      | Inr version \<Rightarrow>
          (let ident = publisher_text @ ''.'' @ name_text;
               request = (case to_string render version of
                            Inl e \<Rightarrow> Inl e
                          | Inr version_text \<Rightarrow> Inr (Some (dir, ident @ ''-'' @ version_text)))
           in case installed ident of
                None \<Rightarrow> request
              | Some localVersion \<Rightarrow>
                  (case compareVer localVersion version of
                     Inl e \<Rightarrow> Inl e
                   | Inr c \<Rightarrow> if c \<ge> 0 then Inr None else request)))))))"

text \<open>
  The copies requested before an exception is thrown have been requested all the same,
  so they are returned beside the result.
\<close>

fun install_loop ::
  "(json \<Rightarrow> json option \<Rightarrow> error + int) \<Rightarrow> (json \<Rightarrow> error + string)
     \<Rightarrow> (string \<Rightarrow> json option) \<Rightarrow> folder list \<Rightarrow> bool \<Rightarrow> copy list \<times> (error + bool)" where
  "install_loop compareVer render installed [] updated = ([], Inr updated)"
| "install_loop compareVer render installed (f # folders) updated =
     (case examine compareVer render installed f of
        Inl e \<Rightarrow> ([], Inl e)
      | Inr None \<Rightarrow> install_loop compareVer render installed folders updated
      | Inr (Some c) \<Rightarrow>
          (case install_loop compareVer render installed folders True of
             (copies, r) \<Rightarrow> (c # copies, r)))"

definition installNewExtensions ::
  "(json \<Rightarrow> json option \<Rightarrow> error + int) \<Rightarrow> (json \<Rightarrow> error + string)
     \<Rightarrow> (string \<Rightarrow> json option) \<Rightarrow> folder list \<Rightarrow> copy list \<times> (error + bool)" where
  "installNewExtensions compareVer render installed folders =
     install_loop compareVer render installed folders False"

section \<open>Path validation in \<^verbatim>\<open>fetchExtensions\<close> and \<^verbatim>\<open>fetchSettings\<close>\<close>

text \<open>
  Both methods open with the same \<^verbatim>\<open>while (unconfirmed)\<close> loop, over the remote extension
  path in the one and the remote settings path in the other; \<open>target\<close> says which. The
  calls to the editor's window are recorded in order. What the user answers is an input:
  \<open>inputs\<close> are the results of the successive input boxes and \<open>picks\<close> the buttons chosen
  in the successive error dialogs, \<open>None\<close> for a box or dialog that was dismissed; a list
  that has run out stands for dismissals.
\<close>

datatype target = ExtensionPath | SettingsPath

datatype choice = TryAgain | ReenterPath | Ignore

datatype window_call =
    ShowInputBox string string
  | ShowWarningMessage string
  | ShowErrorMessage string
  | ShowErrorChoices string

datatype outcome = Confirmed | Abandoned | Raised error

fun configured :: "target \<Rightarrow> state \<Rightarrow> string option" where
  "configured ExtensionPath s = remoteExtensionPath s"
| "configured SettingsPath s = remoteSettingsPath s"

fun setting_name :: "target \<Rightarrow> string" where
  "setting_name ExtensionPath = ''fetchUserEnv.remoteExtensionPath''"
| "setting_name SettingsPath = ''fetchUserEnv.remoteSettingsPath''"

fun input_prompt :: "target \<Rightarrow> string" where
  "input_prompt ExtensionPath = ''Please enter path for remote extensions''"
| "input_prompt SettingsPath = ''Please enter path for remote settings''"

fun cancelled_message :: "target \<Rightarrow> string" where
  "cancelled_message ExtensionPath =
     ''Path for remote extensions not specified, operation cancelled.''"
| "cancelled_message SettingsPath =
     ''Path for remote settings not specified, operation cancelled.''"

fun no_access_message :: "target \<Rightarrow> string" where
  "no_access_message ExtensionPath = ''Cannot access extensions at specified remote path.''"
| "no_access_message SettingsPath = ''Cannot access settings at specified remote path.''"

text \<open>\<^verbatim>\<open>saveRemoteExtensionPath\<close> and \<^verbatim>\<open>saveRemoteSettingsPath\<close>: the field is set first.\<close>

fun saveRemotePath :: "target \<Rightarrow> string \<Rightarrow> state \<Rightarrow> (error + unit) \<times> state" where
  "saveRemotePath t p s =
     (let s1 = (case t of
                  ExtensionPath \<Rightarrow> s\<lparr>remoteExtensionPath := Some p\<rparr>
                | SettingsPath \<Rightarrow> s\<lparr>remoteSettingsPath := Some p\<rparr>)
      in case updateSettings s1 [(setting_name t, JStr p)] of
           Inl e \<Rightarrow> (Inl e, s1)
         | Inr s2 \<Rightarrow> (Inr (), s2))"

text \<open>\<^verbatim>\<open>getRemoteExtensionPath\<close> and \<^verbatim>\<open>getRemoteSettingsPath\<close>, given the input box's result.\<close>

fun getRemotePath ::
  "target \<Rightarrow> string option \<Rightarrow> state \<Rightarrow> window_call list \<times> (error + bool) \<times> state" where
  "getRemotePath t answer s =
     (let box = ShowInputBox (input_prompt t)
                  (case configured t s of None \<Rightarrow> [] | Some v \<Rightarrow> v)
      in if falsy answer
         then ([box, ShowWarningMessage (cancelled_message t)], Inr False, s)
         else (case saveRemotePath t (case answer of None \<Rightarrow> [] | Some p \<Rightarrow> p) s of
                 (Inl e, s') \<Rightarrow> ([box], Inl e, s')
               | (Inr u, s') \<Rightarrow> ([box], Inr True, s')))"

text \<open>
  The test after the prompt: \<^verbatim>\<open>fs.existsSync(this._remoteExtensionPath)\<close>, which is false
  of a non-string, or \<^verbatim>\<open>fs.existsSync(path.join(this._remoteSettingsPath, 'settings.json'))\<close>.
\<close>

fun path_exists :: "target \<Rightarrow> state \<Rightarrow> error + bool" where
  "path_exists ExtensionPath s =
     Inr (case remoteExtensionPath s of None \<Rightarrow> False | Some d \<Rightarrow> d \<in> dirs s)"
| "path_exists SettingsPath s =
     (case path_join (remoteSettingsPath s) ''settings.json'' of
        Inl e \<Rightarrow> Inl e
      | Inr f \<Rightarrow> Inr (files s f \<noteq> None))"

definition config_error_message :: "error \<Rightarrow> string" where
  "config_error_message e =
     (case e of
        JSONError message (dir, name) \<Rightarrow>
          ''Error detected in configuration file: '' @ [CHR 0x22] @ dir @ ''/'' @ name
            @ [CHR 0x22] @ '', '' @ message
      | _ \<Rightarrow> [])"

text \<open>
  One round of the loop up to the existence test: \<open>Inl\<close> when the method returns there,
  \<open>Inr\<close> with the remaining inputs when it goes on. A \<open>JSONError\<close> from saving the path is
  shown and ends the method; the handler lets any other exception pass.
\<close>

fun enter_path ::
  "target \<Rightarrow> bool \<Rightarrow> bool \<Rightarrow> string option list \<Rightarrow> state
     \<Rightarrow> window_call list \<times> state \<times> (outcome + string option list)" where
  "enter_path t prompt reenter inputs s =
     (if falsy (configured t s) \<or> reenter then
        (if \<not> prompt \<and> \<not> reenter then ([], s, Inl Abandoned)
         else
           (case getRemotePath t (case inputs of [] \<Rightarrow> None | a # rest \<Rightarrow> a) s of
              (calls, Inr False, s') \<Rightarrow> (calls, s', Inl Abandoned)
            | (calls, Inl (JSONError message f), s') \<Rightarrow>
                (calls @ [ShowErrorMessage (config_error_message (JSONError message f))],
                 s', Inl Abandoned)
            | (calls, r, s') \<Rightarrow> (calls, s', Inr (tl inputs))))
      else ([], s, Inr inputs))"

function path_loop ::
  "target \<Rightarrow> bool \<Rightarrow> bool \<Rightarrow> string option list \<Rightarrow> choice option list \<Rightarrow> state
     \<Rightarrow> window_call list \<times> outcome \<times> state" where
  "path_loop t prompt reenter inputs picks s =
     (case enter_path t prompt reenter inputs s of
        (calls, s', Inl out) \<Rightarrow> (calls, out, s')
      | (calls, s', Inr inputs') \<Rightarrow>
          (case path_exists t s' of
             Inl e \<Rightarrow> (calls, Raised e, s')
           | Inr True \<Rightarrow> (calls, Confirmed, s')
           | Inr False \<Rightarrow>
               (let calls' = calls @ [ShowErrorChoices (no_access_message t)] in
                case picks of
                  [] \<Rightarrow> (calls', Abandoned, s')
                | pick # picks' \<Rightarrow>
                    (case pick of
                       Some TryAgain \<Rightarrow>
                         (case path_loop t prompt False inputs' picks' s' of
                            (later, r) \<Rightarrow> (calls' @ later, r))
                     | Some ReenterPath \<Rightarrow>
                         (case path_loop t prompt True inputs' picks' s' of
                            (later, r) \<Rightarrow> (calls' @ later, r))
                     | Some Ignore \<Rightarrow> (calls', Abandoned, s')
                     | None \<Rightarrow> (calls', Abandoned, s')))))"
  by pat_completeness auto
termination
  by (relation "measure (\<lambda>(t, prompt, reenter, inputs, picks, s). length picks)") auto

declare path_loop.simps [simp del]

text \<open>
  The two methods up to the end of that loop, from \<^verbatim>\<open>unconfirmed = true; reenter = false\<close>.
  \<open>Abandoned\<close> is a \<^verbatim>\<open>return\<close> out of the method; with \<open>Confirmed\<close> the method goes on to
  the comparison.
\<close>

definition fetchExtensions_paths ::
  "bool \<Rightarrow> string option list \<Rightarrow> choice option list \<Rightarrow> state
     \<Rightarrow> window_call list \<times> outcome \<times> state" where
  "fetchExtensions_paths prompt inputs picks s =
     path_loop ExtensionPath prompt False inputs picks s"

definition fetchSettings_paths ::
  "bool \<Rightarrow> string option list \<Rightarrow> choice option list \<Rightarrow> state
     \<Rightarrow> window_call list \<times> outcome \<times> state" where
  "fetchSettings_paths prompt inputs picks s =
     path_loop SettingsPath prompt False inputs picks s"

section \<open>Notions used to state the properties\<close>

text \<open>
  The local settings as \<^verbatim>\<open>updateSettings\<close> finds them: the empty object when the file does
  not exist yet, nothing when it does not parse. \<open>local_value s k\<close> is the value the local
  settings file holds for the key \<open>k\<close>.
\<close>

definition local_settings :: "state \<Rightarrow> document option" where
  "local_settings s =
     (case files s (localSettingsFile s) of
        None \<Rightarrow> Some []
      | Some (Doc d) \<Rightarrow> Some d
      | Some (Garbage message) \<Rightarrow> None)"


text \<open>
  The criterion for copying a remote extension folder, in words: its \<^verbatim>\<open>package.json\<close> is
  there, and the extension is not installed or its installed version compares below the
  remote one. The identifier is the publisher, a dot and the name, each as \<^verbatim>\<open>+\<close> turns it
  into a string; \<open>copy_of\<close> is the copy then requested. \<open>thrown\<close> is the exception that
  examining a folder throws, if any.
\<close>

definition field :: "json \<Rightarrow> string \<Rightarrow> json option" where
  "field json_file k = (case js_get json_file k of Inl e \<Rightarrow> None | Inr v \<Rightarrow> v)"

definition text_of :: "(json \<Rightarrow> error + string) \<Rightarrow> json option \<Rightarrow> string" where
  "text_of render v = (case to_string render v of Inl e \<Rightarrow> [] | Inr t \<Rightarrow> t)"

definition ident :: "(json \<Rightarrow> error + string) \<Rightarrow> json \<Rightarrow> string" where
  "ident render json_file =
     text_of render (field json_file ''publisher'') @ ''.''
       @ text_of render (field json_file ''name'')"

definition wanted ::
  "(json \<Rightarrow> json option \<Rightarrow> error + int) \<Rightarrow> (json \<Rightarrow> error + string)
     \<Rightarrow> (string \<Rightarrow> json option) \<Rightarrow> folder \<Rightarrow> bool" where
  "wanted compareVer render installed f =
     (case snd f of
        PackageFile json_file \<Rightarrow>
          (case installed (ident render json_file) of
             None \<Rightarrow> True
           | Some localVersion \<Rightarrow>
               (case compareVer localVersion (field json_file ''version'') of
                  Inl e \<Rightarrow> False
                | Inr c \<Rightarrow> c < 0))
      | _ \<Rightarrow> False)"

definition copy_of :: "(json \<Rightarrow> error + string) \<Rightarrow> folder \<Rightarrow> copy" where
  "copy_of render f =
     (case snd f of
        PackageFile json_file \<Rightarrow>
          (fst f, ident render json_file @ ''-''
                    @ text_of render (field json_file ''version''))
      | _ \<Rightarrow> (fst f, []))"

definition thrown ::
  "(json \<Rightarrow> json option \<Rightarrow> error + int) \<Rightarrow> (json \<Rightarrow> error + string)
     \<Rightarrow> (string \<Rightarrow> json option) \<Rightarrow> folder \<Rightarrow> error option" where
  "thrown compareVer render installed f =
     (case examine compareVer render installed f of Inl e \<Rightarrow> Some e | Inr c \<Rightarrow> None)"


definition unmounted :: state where
  "unmounted =
     \<lparr>remoteExtensionPath = Some ''/mnt/share/extensions'',
      remoteSettingsPath = Some ''/mnt/share/settings'',
      remoteDefaultSettingsFilename = None,
      localSettingsPath = ''/home/user/.config/Code/User'',
      files = Map.empty,
      dirs = {}\<rparr>"

definition unconfigured :: state where
  "unconfigured = unmounted\<lparr>remoteExtensionPath := None, remoteSettingsPath := Some []\<rparr>"


text \<open>
  In \<open>shadowing_settings\<close> the local settings hold a key named \<^verbatim>\<open>hasOwnProperty\<close>, and the
  remote default settings a key that the local settings lack.
\<close>

definition shadowing_settings :: state where
  "shadowing_settings =
     \<lparr>remoteExtensionPath = None,
      remoteSettingsPath = Some ''/mnt/share/settings'',
      remoteDefaultSettingsFilename = Some ''defaults.json'',
      localSettingsPath = ''/home/user/.config/Code/User'',
      files = [(''/mnt/share/settings'', ''defaults.json'') \<mapsto>
                 Doc [(''editor.tabSize'', JNum 4)],
               (''/home/user/.config/Code/User'', ''settings.json'') \<mapsto>
                 Doc [(''hasOwnProperty'', JNum 1)]],
      dirs = {''/mnt/share/settings'', ''/home/user/.config/Code/User''}\<rparr>"

text \<open>
  For the examples of \<^verbatim>\<open>installNewExtensions\<close>: a version order on strings (equal strings
  compare 0, and \<open>1.0.0\<close> is the oldest) that throws on anything else, as \<^verbatim>\<open>semver-compare\<close>
  does; the conversion of an object to a string (the examples convert strings only); one
  installed extension; and remote folders.
\<close>

fun example_order :: "json \<Rightarrow> json option \<Rightarrow> error + int" where
  "example_order (JStr a) (Some (JStr b)) =
     Inr (if a = b then 0 else if a = ''1.0.0'' then - 1 else 1)"
| "example_order a b = Inl TypeError"

definition example_render :: "json \<Rightarrow> error + string" where
  "example_render v = Inr ''[object Object]''"

definition example_installed :: "string \<Rightarrow> json option" where
  "example_installed = [''pub.ext'' \<mapsto> JStr ''1.0.0'']"

definition package :: "string \<Rightarrow> string \<Rightarrow> string \<Rightarrow> package_json" where
  "package publisher name version =
     PackageFile (JObj [(''name'', JStr name), (''publisher'', JStr publisher),
                        (''version'', JStr version)])"

definition newer_folder :: folder where
  "newer_folder = (''/mnt/share/extensions/pub.ext-1.1.0'', package ''pub'' ''ext'' ''1.1.0'')"

definition same_folder :: folder where
  "same_folder = (''/mnt/share/extensions/pub.ext-1.0.0'', package ''pub'' ''ext'' ''1.0.0'')"

definition broken_folder :: folder where
  "broken_folder = (''/mnt/share/extensions/draft'', BadPackageFile ''Unexpected end of JSON input'')"

definition fresh_folder :: folder where
  "fresh_folder = (''/mnt/share/extensions/pub.other-0.1.0'', package ''pub'' ''other'' ''0.1.0'')"

definition notes_folder :: folder where
  "notes_folder = (''/mnt/share/extensions/notes'', NoPackageFile)"

section \<open>Properties of \<^verbatim>\<open>compareUpdate\<close> and of the settings diff\<close>



text \<open>
  C1: the delta has top-level granularity, and any difference under a top-level key of
  \<open>compare\<close> puts that whole value in the delta. The code does not do this for a nested
  object that lost its last key: the second loop of \<^verbatim>\<open>compareUpdate\<close> returns \<^verbatim>\<open>compare\<close> to
  report the removed key, \<^verbatim>\<open>compare\<close> is \<^verbatim>\<open>{}\<close>, and the caller takes a result without keys
  for "no difference". With local \<^verbatim>\<open>{"files.exclude": {"**/.git": true}}\<close> and remote
  \<^verbatim>\<open>{"files.exclude": {}}\<close> the delta is empty.
\<close>

theorem emptied_object_not_reported:
  "diff [(''files.exclude'', JObj [(''**/.git'', JBool True)])] [(''files.exclude'', JObj [])]
     = Inr []"
  by (simp add: diff_def remote_step_def object_prototype_names_def compareUpdate.simps)

text \<open>
  C2: a scalar or array value that is not strictly equal to the base value makes the
  comparison return the whole \<open>compare\<close> subtree, for every kind of value, \<^verbatim>\<open>null\<close> included.
  The code does not do this for \<^verbatim>\<open>null\<close>: \<^verbatim>\<open>typeof null\<close> is \<^verbatim>\<open>'object'\<close>, so the third loop
  recurses into \<^verbatim>\<open>null\<close> instead of comparing with \<^verbatim>\<open>!==\<close>, finds no property to visit and
  reports no difference. With base \<^verbatim>\<open>{"editor.rulers": 5}\<close> and compare
  \<^verbatim>\<open>{"editor.rulers": null}\<close> the comparison returns \<^verbatim>\<open>{}\<close>, and the delta is empty.
\<close>

theorem null_not_reported:
  "compareUpdate (JObj [(''editor.rulers'', JNum 5)]) (JObj [(''editor.rulers'', JNull)])
     = Inr (JObj [])
   \<and> diff [(''editor.rulers'', JNum 5)] [(''editor.rulers'', JNull)] = Inr []"
  by (simp add: diff_def remote_step_def object_prototype_names_def compareUpdate.simps)

text \<open>
  C3: diffing a document against itself yields the empty delta. The code does not get
  there for a document with a nested object that has a key named \<^verbatim>\<open>hasOwnProperty\<close>: the
  first loop of \<^verbatim>\<open>compareUpdate\<close> calls \<^verbatim>\<open>base.hasOwnProperty(prop)\<close> on that object, which
  is a call of the JSON value stored under the key, and the diff raises a \<open>TypeError\<close>.
\<close>

theorem shadowing_document_raises:
  "diff [(''launch'', JObj [(''hasOwnProperty'', JNum 1)])]
        [(''launch'', JObj [(''hasOwnProperty'', JNum 1)])]
     = Inl TypeError"
  by (simp add: diff_def remote_step_def object_prototype_names_def compareUpdate.simps)

text \<open>
  C4: for all documents, applying the delta and diffing again yields the empty delta. The
  code does not get there when one side holds \<^verbatim>\<open>null\<close> where the other holds a non-empty
  object: \<^verbatim>\<open>typeof null\<close> is \<^verbatim>\<open>'object'\<close>, the recursive call reads a property of
  \<^verbatim>\<open>null\<close>, and the diff raises a \<open>TypeError\<close>, in the first pass and in every later one.
\<close>

theorem null_against_object_raises:
  "diff [(''editor.codeActionsOnSave'', JNull)]
        [(''editor.codeActionsOnSave'', JObj [(''source.fixAll'', JBool True)])]
     = Inl TypeError"
  by (simp add: diff_def remote_step_def object_prototype_names_def compareUpdate.simps)

text \<open>
  A remote key that names a member of \<^verbatim>\<open>Object.prototype\<close> is compared with that member
  when the local document lacks it: an empty object there is not reported, a number is.
\<close>

lemma inherited_member_compared:
  "diff [] [(''constructor'', JObj [])] = Inr []
   \<and> diff [] [(''constructor'', JNum 1)] = Inr [(''constructor'', JNum 1)]
   \<and> diff [] [(''toString'', JObj [(''a'', JNum 1)])]
       = Inr [(''toString'', JObj [(''a'', JNum 1)])]"
  by (simp add: diff_def remote_step_def inherited_member_def object_prototype_names_def
        function_names_def object_assign_def set_property_def)

subsection \<open>The keys of the delta\<close>













section \<open>Properties of the settings files\<close>








text \<open>
  C5: the delta of the defaults merge holds exactly the entries of the defaults document
  whose key the local document lacks. The code does not get there when the local
  document has a key named \<^verbatim>\<open>hasOwnProperty\<close>: the loop calls
  \<^verbatim>\<open>localSettings.hasOwnProperty(prop)\<close>, which is a call of the JSON value stored under
  that key, and raises a \<open>TypeError\<close>. In \<open>shadowing_settings\<close> the same call in the filter
  loop of \<^verbatim>\<open>readSettingsFile\<close> makes \<^verbatim>\<open>compareDefaultSettings\<close> raise, and nothing is written.
  And a defaults key named \<^verbatim>\<open>__proto__\<close> that the local document lacks is not in the delta:
  the assignment \<^verbatim>\<open>newSettings[prop] = ...\<close> goes to the setter of \<^verbatim>\<open>Object.prototype\<close>.
\<close>

theorem shadowing_local_raises:
  "mergeDefaults [(''editor.tabSize'', JNum 4)] [(''hasOwnProperty'', JNum 1)] = Inl TypeError
   \<and> compareDefaultSettings shadowing_settings = Inl TypeError
   \<and> mergeDefaults [(''__proto__'', JObj [(''editor.tabSize'', JNum 4)])] [] = Inr []"
  by (simp add: mergeDefaults_def set_property_def compareDefaultSettings_def
        readSettingsFile_def localSettingsFile_def shadowing_settings_def startsWith_def)



subsection \<open>A failure of the defaults step\<close>




section \<open>Properties of \<^verbatim>\<open>installNewExtensions\<close>\<close>

text \<open>
  What the examination of one folder does, in the words of the criterion: it requests the
  copy of a wanted folder, passes over an unwanted one, or throws.
\<close>

lemma examine_wanted:
  "examine cv r inst f = Inr (Some c) \<longleftrightarrow>
     thrown cv r inst f = None \<and> wanted cv r inst f \<and> c = copy_of r f"
  by (cases f; cases "snd f")
     (auto simp: thrown_def wanted_def copy_of_def ident_def field_def text_of_def Let_def
           split: sum.splits option.splits if_splits)

lemma examine_unwanted:
  "examine cv r inst f = Inr None \<longleftrightarrow> thrown cv r inst f = None \<and> \<not> wanted cv r inst f"
  by (cases f; cases "snd f")
     (auto simp: thrown_def wanted_def copy_of_def ident_def field_def text_of_def Let_def
           split: sum.splits option.splits if_splits)

lemma examine_thrown:
  "examine cv r inst f = Inl e \<longleftrightarrow> thrown cv r inst f = Some e"
  by (auto simp: thrown_def split: sum.splits)

lemma install_loop_until_throw:
  "install_loop cv r inst folders u =
     (map (copy_of r) (filter (wanted cv r inst)
        (takeWhile (\<lambda>f. thrown cv r inst f = None) folders)),
      case List.map_filter (thrown cv r inst) folders of
        [] \<Rightarrow> Inr (u \<or> list_ex (wanted cv r inst) folders)
      | e # es \<Rightarrow> Inl e)"
proof (induction folders arbitrary: u)
  case Nil
  show ?case by simp
next
  case (Cons f folders)
  show ?case
  proof (cases "examine cv r inst f")
    case (Inl e)
    then have "thrown cv r inst f = Some e" by (simp add: examine_thrown)
    with Inl show ?thesis by simp
  next
    case (Inr c)
    show ?thesis
    proof (cases c)
      case None
      with Inr have "thrown cv r inst f = None" "\<not> wanted cv r inst f"
        by (simp_all add: examine_unwanted)
      with Inr None show ?thesis by (simp add: Cons.IH split: list.splits)
    next
      case (Some c')
      with Inr have "thrown cv r inst f = None" "wanted cv r inst f" "c' = copy_of r f"
        by (simp_all add: examine_wanted)
      with Inr Some show ?thesis
        by (simp add: Cons.IH split: list.splits)
    qed
  qed
qed

text \<open>
  C6, as stated, fails: a folder is copied if and only if it has a \<^verbatim>\<open>package.json\<close> and is
  not installed or installed in an older version. The loop stops at the first folder
  whose \<^verbatim>\<open>package.json\<close> does not parse, with a \<open>JSONError\<close>. With \<^verbatim>\<open>pub.ext\<close> 1.0.0 installed
  and the remote folders of \<^verbatim>\<open>pub.ext\<close> 1.1.0, of a draft with a truncated \<^verbatim>\<open>package.json\<close>,
  and of \<^verbatim>\<open>pub.other\<close> 0.1.0, which is not installed, the first folder is copied and the
  third is not.
\<close>

theorem later_folder_not_copied:
  "wanted example_order example_render example_installed fresh_folder
   \<and> installNewExtensions example_order example_render example_installed
       [newer_folder, broken_folder, fresh_folder]
     = ([(''/mnt/share/extensions/pub.ext-1.1.0'', ''pub.ext-1.1.0'')],
        Inl (JSONError ''Unexpected end of JSON input''
               (''/mnt/share/extensions/draft'', ''package.json'')))"
  by (simp add: installNewExtensions_def wanted_def ident_def field_def text_of_def
        example_installed_def fresh_folder_def newer_folder_def broken_folder_def package_def)

text \<open>
  C6, amended: the folders are examined in order, up to the first one whose examination
  throws; the folders after it are not examined. Of the folders before it, exactly
  those are copied, in order, that have a \<^verbatim>\<open>package.json\<close> and are not installed or
  installed in a version that compares below the remote one. The result is the first
  exception if there is one, and otherwise tells whether a copy was requested. A folder
  without \<^verbatim>\<open>package.json\<close> never throws, a folder whose \<^verbatim>\<open>package.json\<close> does not parse throws
  a \<open>JSONError\<close> naming the file, and a folder whose \<^verbatim>\<open>package.json\<close> holds three strings throws
  only what the version comparison throws.
\<close>

theorem installNewExtensions_until_throw:
  "installNewExtensions compareVer render installed folders =
     (map (copy_of render) (filter (wanted compareVer render installed)
        (takeWhile (\<lambda>f. thrown compareVer render installed f = None) folders)),
      case List.map_filter (thrown compareVer render installed) folders of
        [] \<Rightarrow> Inr (list_ex (wanted compareVer render installed) folders)
      | e # es \<Rightarrow> Inl e)
   \<and> thrown compareVer render installed (dir, NoPackageFile) = None
   \<and> thrown compareVer render installed (dir, BadPackageFile message)
       = Some (JSONError message (dir, ''package.json''))
   \<and> thrown compareVer render installed (dir, package publisher name version)
       = (case installed (publisher @ ''.'' @ name) of
            None \<Rightarrow> None
          | Some localVersion \<Rightarrow>
              (case compareVer localVersion (Some (JStr version)) of
                 Inl e \<Rightarrow> Some e
               | Inr c \<Rightarrow> None))
   \<and> wanted compareVer render installed (dir, package publisher name version)
       = (case installed (publisher @ ''.'' @ name) of
            None \<Rightarrow> True
          | Some localVersion \<Rightarrow>
              (case compareVer localVersion (Some (JStr version)) of
                 Inl e \<Rightarrow> False
               | Inr c \<Rightarrow> c < 0))
   \<and> copy_of render (dir, package publisher name version)
       = (dir, publisher @ ''.'' @ name @ ''-'' @ version)"
proof -
  have "installNewExtensions compareVer render installed folders =
     (map (copy_of render) (filter (wanted compareVer render installed)
        (takeWhile (\<lambda>f. thrown compareVer render installed f = None) folders)),
      case List.map_filter (thrown compareVer render installed) folders of
        [] \<Rightarrow> Inr (list_ex (wanted compareVer render installed) folders)
      | e # es \<Rightarrow> Inl e)"
    by (simp add: installNewExtensions_def install_loop_until_throw split: list.splits)
  moreover have "thrown compareVer render installed (dir, NoPackageFile) = None"
    by (simp add: thrown_def)
  moreover have "thrown compareVer render installed (dir, BadPackageFile message)
       = Some (JSONError message (dir, ''package.json''))"
    by (simp add: thrown_def)
  moreover have "thrown compareVer render installed (dir, package publisher name version)
       = (case installed (publisher @ ''.'' @ name) of
            None \<Rightarrow> None
          | Some localVersion \<Rightarrow>
              (case compareVer localVersion (Some (JStr version)) of
                 Inl e \<Rightarrow> Some e
               | Inr c \<Rightarrow> None))"
    by (simp add: thrown_def package_def split: option.splits sum.splits)
  moreover have "wanted compareVer render installed (dir, package publisher name version)
       = (case installed (publisher @ ''.'' @ name) of
            None \<Rightarrow> True
          | Some localVersion \<Rightarrow>
              (case compareVer localVersion (Some (JStr version)) of
                 Inl e \<Rightarrow> False
               | Inr c \<Rightarrow> c < 0))"
    by (simp add: wanted_def ident_def field_def text_of_def package_def split: option.splits)
  moreover have "copy_of render (dir, package publisher name version)
       = (dir, publisher @ ''.'' @ name @ ''-'' @ version)"
    by (simp add: copy_of_def ident_def field_def text_of_def package_def)
  ultimately show ?thesis by blast
qed

theorem installNewExtensions_until_throw_witness:
  "installNewExtensions example_order example_render example_installed
     [notes_folder, same_folder, newer_folder, fresh_folder]
     = ([(''/mnt/share/extensions/pub.ext-1.1.0'', ''pub.ext-1.1.0''),
         (''/mnt/share/extensions/pub.other-0.1.0'', ''pub.other-0.1.0'')],
        Inr True)"
  using installNewExtensions_until_throw
          [of example_order example_render example_installed
              "[notes_folder, same_folder, newer_folder, fresh_folder]"]
  by (simp add: thrown_def wanted_def copy_of_def ident_def field_def text_of_def
        example_installed_def notes_folder_def same_folder_def
        newer_folder_def fresh_folder_def package_def)

section \<open>Properties of the path validation\<close>

lemma path_loop_unconfigured:
  "falsy (configured t s) \<Longrightarrow> path_loop t False False inputs picks s = ([], Abandoned, s)"
  by (simp add: path_loop.simps [of t False False inputs picks s])

lemma path_loop_confirmed:
  "\<not> falsy (configured t s) \<Longrightarrow> path_exists t s = Inr True \<Longrightarrow>
     path_loop t prompt False inputs picks s = ([], Confirmed, s)"
  by (simp add: path_loop.simps [of t prompt False inputs picks s])

lemma path_loop_invalid:
  assumes "\<not> falsy (configured t s)" "path_exists t s = Inr False"
  shows "\<exists>rest out s'. path_loop t prompt False inputs picks s =
           (ShowErrorChoices (no_access_message t) # rest, out, s')"
  using assms
  by (auto simp: path_loop.simps [of t prompt False inputs picks s] Let_def
           split: list.splits option.splits choice.splits prod.splits)

text \<open>
  C9, as stated, fails: with a configured remote path that does not exist, the
  non-interactive run shows the error dialog with its three choices; and when the user
  answers "Reenter Path", the input box follows.
\<close>

theorem non_interactive_dialog_counterexample:
  "fetchExtensions_paths False [] [] unmounted =
     ([ShowErrorChoices ''Cannot access extensions at specified remote path.''],
      Abandoned, unmounted)
   \<and> fetchSettings_paths False [] [] unmounted =
     ([ShowErrorChoices ''Cannot access settings at specified remote path.''],
      Abandoned, unmounted)
   \<and> fst (fetchExtensions_paths False [None] [Some ReenterPath] unmounted) =
     [ShowErrorChoices ''Cannot access extensions at specified remote path.'',
      ShowInputBox ''Please enter path for remote extensions'' ''/mnt/share/extensions'',
      ShowWarningMessage ''Path for remote extensions not specified, operation cancelled.'']"
  by (simp add: fetchExtensions_paths_def fetchSettings_paths_def path_loop.simps unmounted_def)

text \<open>
  C9, amended: in a non-interactive run of \<^verbatim>\<open>fetchExtensions\<close> or \<^verbatim>\<open>fetchSettings\<close>, a remote
  path that is not configured ends the operation at once, abandoned, with no prompt and
  no dialog. A configured path that does not exist makes the run show the error dialog
  ("Try Again", "Reenter Path", "Ignore") first, as an interactive run does.
\<close>

theorem non_interactive_paths:
  "(falsy (remoteExtensionPath s) \<longrightarrow>
      fetchExtensions_paths False inputs picks s = ([], Abandoned, s))
   \<and> (falsy (remoteSettingsPath s) \<longrightarrow>
      fetchSettings_paths False inputs picks s = ([], Abandoned, s))
   \<and> (\<not> falsy (remoteExtensionPath s) \<and> path_exists ExtensionPath s = Inr False \<longrightarrow>
      (\<exists>rest out s'. fetchExtensions_paths False inputs picks s =
         (ShowErrorChoices (no_access_message ExtensionPath) # rest, out, s')))
   \<and> (\<not> falsy (remoteSettingsPath s) \<and> path_exists SettingsPath s = Inr False \<longrightarrow>
      (\<exists>rest out s'. fetchSettings_paths False inputs picks s =
         (ShowErrorChoices (no_access_message SettingsPath) # rest, out, s')))"
  using path_loop_unconfigured [of ExtensionPath s inputs picks]
    path_loop_unconfigured [of SettingsPath s inputs picks]
    path_loop_invalid [of ExtensionPath s False inputs picks]
    path_loop_invalid [of SettingsPath s False inputs picks]
  by (simp add: fetchExtensions_paths_def fetchSettings_paths_def)

theorem non_interactive_paths_witness:
  "falsy (remoteExtensionPath unconfigured) \<and> falsy (remoteSettingsPath unconfigured)
   \<and> fetchExtensions_paths False [Some ''/tmp''] [Some TryAgain] unconfigured
       = ([], Abandoned, unconfigured)
   \<and> fetchSettings_paths False [Some ''/tmp''] [Some TryAgain] unconfigured
       = ([], Abandoned, unconfigured)
   \<and> \<not> falsy (remoteExtensionPath unmounted) \<and> path_exists ExtensionPath unmounted = Inr False
   \<and> \<not> falsy (remoteSettingsPath unmounted) \<and> path_exists SettingsPath unmounted = Inr False
   \<and> hd (fst (fetchExtensions_paths False [] [Some TryAgain] unmounted))
       = ShowErrorChoices ''Cannot access extensions at specified remote path.''
   \<and> hd (fst (fetchSettings_paths False [] [Some TryAgain] unmounted))
       = ShowErrorChoices ''Cannot access settings at specified remote path.''"
proof -
  have u: "falsy (remoteExtensionPath unconfigured)" "falsy (remoteSettingsPath unconfigured)"
    by (simp_all add: unconfigured_def unmounted_def)
  have m: "\<not> falsy (remoteExtensionPath unmounted)"
    "path_exists ExtensionPath unmounted = Inr False"
    "\<not> falsy (remoteSettingsPath unmounted)"
    "path_exists SettingsPath unmounted = Inr False"
    by (simp_all add: unmounted_def)
  from non_interactive_paths [of unconfigured "[Some ''/tmp'']" "[Some TryAgain]"] u
  have a: "fetchExtensions_paths False [Some ''/tmp''] [Some TryAgain] unconfigured
             = ([], Abandoned, unconfigured)"
    "fetchSettings_paths False [Some ''/tmp''] [Some TryAgain] unconfigured
             = ([], Abandoned, unconfigured)"
    by blast+
  from non_interactive_paths [of unmounted "[]" "[Some TryAgain]"] m
  have b: "hd (fst (fetchExtensions_paths False [] [Some TryAgain] unmounted))
       = ShowErrorChoices ''Cannot access extensions at specified remote path.''"
    "hd (fst (fetchSettings_paths False [] [Some TryAgain] unmounted))
       = ShowErrorChoices ''Cannot access settings at specified remote path.''"
    by auto
  from u m a b show ?thesis by simp
qed


end
